theory Spec2Isabelle
  imports Main "HOL-Library.AList"
begin

section \<open>Python values used by scraper.py\<close>

text \<open>
  A Python \<open>str\<close> is a sequence of code points. The model writes a text as a
  \<open>string\<close> and reads each \<open>char\<close> as the code point of the same number, so it
  covers the texts whose code points are below 256 (ASCII and Latin-1). On that range
  the three character classes below are exactly the ones of CPython 3:
  \<open>str.isspace\<close>, \<open>str.isdigit\<close> and \<open>str.isdecimal\<close>.
\<close>

definition isspace :: "char \<Rightarrow> bool" where
  "isspace c = (let n = (of_char c :: nat) in
     (9 \<le> n \<and> n \<le> 13) \<or> (28 \<le> n \<and> n \<le> 32) \<or> n = 133 \<or> n = 160)"

definition isdecimal_char :: "char \<Rightarrow> bool" where
  "isdecimal_char c = (let n = (of_char c :: nat) in 48 \<le> n \<and> n \<le> 57)"

text \<open>
  \<open>str.isdigit\<close> also accepts the characters of Unicode numeric type Digit that are
  not decimal digits: below 256 these are the superscripts two (U+00B2), three
  (U+00B3) and one (U+00B9).
\<close>

definition isdigit_char :: "char \<Rightarrow> bool" where
  "isdigit_char c = (let n = (of_char c :: nat) in
     (48 \<le> n \<and> n \<le> 57) \<or> n = 178 \<or> n = 179 \<or> n = 185)"

definition isdigit :: "string \<Rightarrow> bool" where
  "isdigit s = (s \<noteq> [] \<and> list_all isdigit_char s)"

definition isdecimal :: "string \<Rightarrow> bool" where
  "isdecimal s = (s \<noteq> [] \<and> list_all isdecimal_char s)"

text \<open>The exceptions that scraper.py can meet. Only \<open>SystemExit\<close> is not an \<open>Exception\<close>.\<close>

datatype exn =
    SystemExit nat
  | RequestException
  | AttributeError
  | ValueError
  | IndexError

fun is_Exception :: "exn \<Rightarrow> bool" where
  "is_Exception (SystemExit code) = False"
| "is_Exception e = True"

definition digit_value :: "char \<Rightarrow> int" where
  "digit_value c = int (of_char c) - 48"

definition decimal_value :: "string \<Rightarrow> int" where
  "decimal_value s = foldl (\<lambda>acc c. 10 * acc + digit_value c) 0 s"

text \<open>
  \<open>int(text)\<close>. Python also accepts surrounding whitespace, a sign and single
  underscores between digits; a text that passes \<open>isdigit\<close> has none of them, and
  \<open>get_page_number_list\<close> converts such texts only. A text with a character that is
  not a decimal digit raises \<open>ValueError\<close>, and so does a text of more digits than
  the interpreter's limit for the conversion of a decimal text, which scraper.py leaves
  at its default of 4300 (CPython 3.11; leading zeros count).
\<close>

definition int_max_str_digits :: nat where
  "int_max_str_digits = 4300"

definition py_int :: "string \<Rightarrow> exn + int" where
  "py_int s =
     (if isdecimal s then
        (if length s > int_max_str_digits then Inl ValueError else Inr (decimal_value s))
      else Inl ValueError)"

text \<open>\<open>max(xs)\<close> of a non-empty list; the caller guards the empty one.\<close>

fun py_max :: "int list \<Rightarrow> exn + int" where
  "py_max [] = Inl ValueError"
| "py_max (x # xs) = Inr (fold max xs x)"

text \<open>\<open>text.split()\<close>: the maximal runs of characters that are not whitespace.\<close>

fun split_from :: "string \<Rightarrow> string \<Rightarrow> string list" where
  "split_from word [] = (if word = [] then [] else [word])"
| "split_from word (c # cs) =
     (if isspace c then (if word = [] then split_from [] cs else word # split_from [] cs)
      else split_from (word @ [c]) cs)"

definition str_split :: "string \<Rightarrow> string list" where
  "str_split s = split_from [] s"

text \<open>\<open>sep.join(words)\<close>.\<close>

fun str_join :: "string \<Rightarrow> string list \<Rightarrow> string" where
  "str_join sep [] = []"
| "str_join sep [w] = w"
| "str_join sep (w # ws) = w @ sep @ str_join sep ws"

text \<open>\<open>str(n)\<close> of an integer, as the f-string of the page URL formats it.\<close>

definition digit_char :: "nat \<Rightarrow> char" where
  "digit_char d = ''0123456789'' ! d"

fun str_nat :: "nat \<Rightarrow> string" where
  "str_nat n =
     (if n < 10 then [digit_char n] else str_nat (n div 10) @ [digit_char (n mod 10)])"

declare str_nat.simps [simp del]

definition str_int :: "int \<Rightarrow> string" where
  "str_int i = (if i < 0 then CHR ''-'' # str_nat (nat (- i)) else str_nat (nat i))"

text \<open>
  A \<open>dict\<close> with string keys and values keeps its keys in insertion order: an
  association list, where \<open>d[k] = v\<close> is \<open>AList.update k v d\<close> (replace in place, or
  append) and \<open>d.get(k)\<close> is \<open>map_of d k\<close>.
\<close>

type_synonym dict = "(string \<times> string) list"

section \<open>The parsed page, the site and the process state\<close>

text \<open>
  BeautifulSoup is a library: a parsed page is modelled by the answers to the queries
  that scraper.py makes. A listing block is a \<open>div\<close> of class
  \<open>mod-b-card__footer\<close>; each field is the answer of \<open>item.find(...)\<close>, \<open>None\<close>
  when no element matches, and otherwise what the code reads from the element found:
  \<open>get_text(strip=True)\<close> of the title, the price and the instalment tooltip, and the
  \<open>get_text(strip=True)\<close> of every \<open>span\<close> of the other-details container, in
  document order. A \<open>Tag\<close> is always true in a condition.
\<close>

record card =
  title :: "string option"
  car_other :: "string list option"
  price_total :: "string option"
  tooltipMonthPay :: "string option"

text \<open>
  A page holds the \<open>li\<close> elements of class \<open>mod-pagination__item\<close> in document order,
  each by the \<open>text\<close> of its first \<open>button\<close> (\<open>None\<close> without a button), and the
  listing blocks in document order.
\<close>

record BeautifulSoup =
  pagination_items :: "string option list"
  cards :: "card list"

text \<open>
  What a GET of a URL gives: \<open>requests.get\<close> raises a transport error (an
  \<open>Exception\<close> that is not an \<open>HTTPError\<close>), or \<open>raise_for_status\<close> raises
  \<open>HTTPError\<close>, or the body is parsed. The User-Agent header is the same constant in
  every request and is left out.
\<close>

datatype response = Transport_Error | Status_Error | Ok BeautifulSoup

type_synonym site = "string \<Rightarrow> response"

text \<open>The lines of scraping.log, by their level and content.\<close>

datatype level = INFO | ERROR

datatype message =
    Opening_webpage string
  | HTTP_error_occured
  | Max_page_number_is int
  | Appended dict
  | Error_in_function_get_car_attribute exn
  | Data_has_been_inserted_into_file string
  | Failed_to_retrieve_initial_data
  | Failed_to_retrieve_data_for_webpage int
  | Completed_scraping_in_page int
  | No_car_data_collected
  | Uncaught exn

text \<open>
  The state outside the program: the log (oldest line first), the files of the working
  directory as rows of cells (the header row first), the seconds slept, and a counter
  of the calls of \<open>save_list_to_csv\<close>, which is not in the code and only records that
  the function was entered.
\<close>

record world =
  log :: "(level \<times> message) list"
  files :: "(string \<times> string list list) list"
  slept :: nat
  sink_calls :: nat

definition logging_info :: "message \<Rightarrow> world \<Rightarrow> world" where
  "logging_info m w = w\<lparr>log := log w @ [(INFO, m)]\<rparr>"

definition logging_error :: "message \<Rightarrow> world \<Rightarrow> world" where
  "logging_error m w = w\<lparr>log := log w @ [(ERROR, m)]\<rparr>"

definition sleep :: "nat \<Rightarrow> world \<Rightarrow> world" where
  "sleep n w = w\<lparr>slept := slept w + n\<rparr>"

definition start :: world where
  "start = \<lparr>log = [], files = [], slept = 0, sink_calls = 0\<rparr>"

section \<open>scraper.py\<close>

subsection \<open>get_html\<close>

definition base_url :: string where
  "base_url = ''https://www.carsome.my/buy-car/perodua/myvi''"

definition page_url :: "int option \<Rightarrow> string" where
  "page_url page_number =
     (case page_number of
        Some n \<Rightarrow> base_url @ ''?pageNo='' @ str_int n
      | None \<Rightarrow> base_url)"

text \<open>
  The result is a Python reference, which the caller compares with \<open>None\<close>: hence the
  \<open>option\<close>. An \<open>HTTPError\<close> is logged and becomes \<open>sys.exit(1)\<close>; any other
  exception of the request leaves the function as it is.
\<close>

definition get_html :: "site \<Rightarrow> int option \<Rightarrow> world \<Rightarrow> (exn + BeautifulSoup option) \<times> world" where
  "get_html www page_number w =
     (let url = page_url page_number in
      case www url of
        Transport_Error \<Rightarrow> (Inl RequestException, w)
      | Status_Error \<Rightarrow> (Inl (SystemExit 1), logging_error HTTP_error_occured w)
      | Ok car_html \<Rightarrow> (Inr (Some car_html), logging_info (Opening_webpage url) w))"

subsection \<open>get_page_number_list and get_max_page_number\<close>

fun page_number_loop :: "string option list \<Rightarrow> int list \<Rightarrow> exn + int list" where
  "page_number_loop [] page_numbers = Inr page_numbers"
| "page_number_loop (button # rest) page_numbers =
     (case button of
        None \<Rightarrow> page_number_loop rest page_numbers
      | Some text \<Rightarrow>
          if isdigit text then
            (case py_int text of
               Inl e \<Rightarrow> Inl e
             | Inr n \<Rightarrow> page_number_loop rest (page_numbers @ [n]))
          else page_number_loop rest page_numbers)"

definition get_page_number_list :: "BeautifulSoup \<Rightarrow> exn + int list" where
  "get_page_number_list car_html = page_number_loop (pagination_items car_html) []"

definition get_max_page_number :: "int list \<Rightarrow> world \<Rightarrow> (exn + int) \<times> world" where
  "get_max_page_number page_number_list w =
     (case (if page_number_list \<noteq> [] then py_max page_number_list else Inr 1) of
        Inl e \<Rightarrow> (Inl e, w)
      | Inr max_number \<Rightarrow> (Inr max_number, logging_info (Max_page_number_is max_number) w))"

text \<open>Pagination discovery as \<open>main\<close> runs it: the two functions one after the other.\<close>

definition discover :: "BeautifulSoup \<Rightarrow> world \<Rightarrow> (exn + int) \<times> world" where
  "discover car_html w =
     (case get_page_number_list car_html of
        Inl e \<Rightarrow> (Inl e, w)
      | Inr page_number_list \<Rightarrow> get_max_page_number page_number_list w)"

subsection \<open>get_car_list and get_car_attribute\<close>

definition get_car_list :: "BeautifulSoup \<Rightarrow> card list" where
  "get_car_list car_webpage = cards car_webpage"

text \<open>\<open>found.get_text(strip=True)\<close>, where \<open>found\<close> may be \<open>None\<close>.\<close>

definition get_text :: "string option \<Rightarrow> exn + string" where
  "get_text found = (case found of None \<Rightarrow> Inl AttributeError | Some text \<Rightarrow> Inr text)"

definition span_text :: "string list \<Rightarrow> nat \<Rightarrow> string" where
  "span_text spans i = (if length spans > i then spans ! i else ''None'')"

text \<open>The body of the \<open>try\<close> block, up to the log line.\<close>

definition car_attribute_try :: "card \<Rightarrow> exn + dict" where
  "car_attribute_try item =
     (case get_text (title item) of
        Inl e \<Rightarrow> Inl e
      | Inr title_text \<Rightarrow>
          let car_name = str_split title_text;
              car_name_joined = str_join '' '' car_name;
              d1 = AList.update ''car_name'' car_name_joined [];
              d2 = (case car_other item of
                      None \<Rightarrow> d1
                    | Some spans \<Rightarrow>
                        AList.update ''car_location'' (span_text spans 2)
                          (AList.update ''car_transmission'' (span_text spans 1)
                            (AList.update ''car_mileage'' (span_text spans 0) d1)))
          in (case get_text (price_total item) of
                Inl e \<Rightarrow> Inl e
              | Inr price \<Rightarrow>
                  (case get_text (tooltipMonthPay item) of
                     Inl e \<Rightarrow> Inl e
                   | Inr monthly \<Rightarrow>
                       Inr (AList.update ''car_monthly_instalment'' monthly
                             (AList.update ''car_price'' price d2)))))"

text \<open>Every \<open>Exception\<close> of the body is logged and becomes \<open>sys.exit(1)\<close>.\<close>

definition get_car_attribute :: "card \<Rightarrow> world \<Rightarrow> (exn + dict) \<times> world" where
  "get_car_attribute item w =
     (case car_attribute_try item of
        Inl e \<Rightarrow> (Inl (SystemExit 1), logging_error (Error_in_function_get_car_attribute e) w)
      | Inr car_dict \<Rightarrow> (Inr car_dict, logging_info (Appended car_dict) w))"

subsection \<open>save_list_to_csv\<close>

text \<open>
  \<open>csv.DictWriter\<close> with its defaults: a row with a key that is not a field name
  raises \<open>ValueError\<close>, a field name that the row lacks is written as the empty string.
\<close>

definition dict_to_list :: "string list \<Rightarrow> dict \<Rightarrow> exn + string list" where
  "dict_to_list fieldnames rowdict =
     (if list_ex (\<lambda>k. k \<notin> set fieldnames) (map fst rowdict) then Inl ValueError
      else Inr (map (\<lambda>k. case map_of rowdict k of None \<Rightarrow> [] | Some v \<Rightarrow> v) fieldnames))"

fun writerows :: "string list \<Rightarrow> dict list \<Rightarrow> string list list \<Rightarrow> exn option \<times> string list list" where
  "writerows fieldnames [] written = (None, written)"
| "writerows fieldnames (row # rest) written =
     (case dict_to_list fieldnames row of
        Inl e \<Rightarrow> (Some e, written)
      | Inr cells \<Rightarrow> writerows fieldnames rest (written @ [cells]))"

text \<open>
  \<open>list_of_car[0]\<close> raises \<open>IndexError\<close> on the empty list, before the file is opened.
  Opening with mode \<open>'w'\<close> creates or empties the file, and the \<open>with\<close> block closes it
  also when a row raises, so the rows written before stay in the file. The working
  directory is taken to be writable.
\<close>

definition save_list_to_csv :: "dict list \<Rightarrow> string \<Rightarrow> world \<Rightarrow> (exn + unit) \<times> world" where
  "save_list_to_csv list_of_car filename w =
     (let w0 = w\<lparr>sink_calls := Suc (sink_calls w)\<rparr> in
      case list_of_car of
        [] \<Rightarrow> (Inl IndexError, w0)
      | first # _ \<Rightarrow>
          let fieldnames = map fst first;
              (raised, written) = writerows fieldnames list_of_car [fieldnames];
              w1 = w0\<lparr>files := AList.update filename written (files w0)\<rparr>
          in (case raised of
                Some e \<Rightarrow> (Inl e, w1)
              | None \<Rightarrow> (Inr (), logging_info (Data_has_been_inserted_into_file filename) w1)))"

subsection \<open>get_date_timestamp\<close>

record datetime =
  year :: nat
  month :: nat
  day :: nat
  hour :: nat
  minute :: nat
  second :: nat

definition two_digits :: "nat \<Rightarrow> string" where
  "two_digits n = (if n < 10 then CHR ''0'' # str_nat n else str_nat n)"

text \<open>\<open>now.strftime("%Y%m%d%H%M%S")\<close>, where \<open>now\<close> is the clock's reading.\<close>

definition get_date_timestamp :: "datetime \<Rightarrow> string" where
  "get_date_timestamp now =
     str_nat (year now) @ two_digits (month now) @ two_digits (day now)
       @ two_digits (hour now) @ two_digits (minute now) @ two_digits (second now)"

subsection \<open>main\<close>

text \<open>The inner loop: one record per listing block, appended to \<open>car_attributes\<close>.\<close>

fun car_loop :: "card list \<Rightarrow> dict list \<Rightarrow> world \<Rightarrow> (exn + dict list) \<times> world" where
  "car_loop [] car_attributes w = (Inr car_attributes, w)"
| "car_loop (car # rest) car_attributes w =
     (case get_car_attribute car w of
        (Inl e, w') \<Rightarrow> (Inl e, w')
      | (Inr car_dict, w') \<Rightarrow> car_loop rest (car_attributes @ [car_dict]) w')"

text \<open>The outer loop over \<open>range(1, max_page_number + 1)\<close>, given as the list of its values.\<close>

fun page_loop :: "site \<Rightarrow> int list \<Rightarrow> dict list \<Rightarrow> world \<Rightarrow> (exn + dict list) \<times> world" where
  "page_loop www [] car_attributes w = (Inr car_attributes, w)"
| "page_loop www (i # rest) car_attributes w =
     (case get_html www (Some i) w of
        (Inl e, w') \<Rightarrow> (Inl e, w')
      | (Inr None, w') \<Rightarrow>
          page_loop www rest car_attributes
            (logging_error (Failed_to_retrieve_data_for_webpage i) w')
      | (Inr (Some car_data_by_webpage), w') \<Rightarrow>
          (case car_loop (get_car_list car_data_by_webpage) car_attributes w' of
             (Inl e, w'') \<Rightarrow> (Inl e, w'')
           | (Inr car_attributes', w'') \<Rightarrow>
               page_loop www rest car_attributes'
                 (sleep 5 (logging_info (Completed_scraping_in_page i) w''))))"

text \<open>
  The run up to the end of the page loop: the discovery fetch, the discovery and the
  loop. \<open>Inr None\<close> is the \<open>return\<close> after a discovery fetch that gave \<open>None\<close>;
  \<open>Inr (Some car_attributes)\<close> is the list with which the loop ends.
\<close>

definition collect :: "site \<Rightarrow> world \<Rightarrow> (exn + dict list option) \<times> world" where
  "collect www w =
     (case get_html www None w of
        (Inl e, w1) \<Rightarrow> (Inl e, w1)
      | (Inr None, w1) \<Rightarrow> (Inr None, logging_error Failed_to_retrieve_initial_data w1)
      | (Inr (Some car_data), w1) \<Rightarrow>
          (case discover car_data w1 of
             (Inl e, w2) \<Rightarrow> (Inl e, w2)
           | (Inr max_page_number, w2) \<Rightarrow>
               (case page_loop www [1..max_page_number] [] w2 of
                  (Inl e, w3) \<Rightarrow> (Inl e, w3)
                | (Inr car_attributes, w3) \<Rightarrow> (Inr (Some car_attributes), w3))))"

text \<open>The body of the \<open>try\<close> block of \<open>main\<close>.\<close>

definition main_try :: "site \<Rightarrow> datetime \<Rightarrow> world \<Rightarrow> (exn + unit) \<times> world" where
  "main_try www now w =
     (let current_timestamp = get_date_timestamp now;
          filename = ''car_'' @ current_timestamp @ ''.csv''
      in (case collect www w of
            (Inl e, w') \<Rightarrow> (Inl e, w')
          | (Inr None, w') \<Rightarrow> (Inr (), w')
          | (Inr (Some car_attributes), w') \<Rightarrow>
              if car_attributes \<noteq> [] then save_list_to_csv car_attributes filename w'
              else (Inr (), logging_error No_car_data_collected w')))"

text \<open>
  \<open>main\<close>: an \<open>Exception\<close> is logged and the function returns; \<open>SystemExit\<close> is not
  an \<open>Exception\<close> and ends the process.
\<close>

definition main :: "site \<Rightarrow> datetime \<Rightarrow> world \<Rightarrow> (exn + unit) \<times> world" where
  "main www now w =
     (case main_try www now w of
        (Inl e, w') \<Rightarrow>
          if is_Exception e then (Inr (), logging_error (Uncaught e) w') else (Inl e, w')
      | (Inr u, w') \<Rightarrow> (Inr u, w'))"

section \<open>Notions of the specification\<close>

text \<open>
  A word has a character and no whitespace. A text is single-spaced when its only
  whitespace is the blank, it neither starts nor ends with whitespace, and no two
  whitespace characters are adjacent.
\<close>

definition word :: "string \<Rightarrow> bool" where
  "word w = (w \<noteq> [] \<and> list_all (\<lambda>c. \<not> isspace c) w)"

fun double_space :: "string \<Rightarrow> bool" where
  "double_space (a # b # cs) = ((isspace a \<and> isspace b) \<or> double_space (b # cs))"
| "double_space cs = False"

definition single_spaced :: "string \<Rightarrow> bool" where
  "single_spaced s =
     (list_all (\<lambda>c. isspace c \<longrightarrow> c = CHR '' '') s
      \<and> (s \<noteq> [] \<longrightarrow> \<not> isspace (hd s) \<and> \<not> isspace (last s))
      \<and> \<not> double_space s)"

text \<open>
  A decimal numeral that \<open>int\<close> converts: decimal digits only, and no more of them
  than the limit.
\<close>

definition int_numeral :: "string \<Rightarrow> bool" where
  "int_numeral s = (isdecimal s \<and> length s \<le> int_max_str_digits)"

text \<open>
  The texts of the pagination buttons of a page, and those of them that are purely
  numeric, as \<open>get_page_number_list\<close> tests it: \<open>isdigit\<close>.
\<close>

definition button_texts :: "BeautifulSoup \<Rightarrow> string list" where
  "button_texts car_html = List.map_filter (\<lambda>button. button) (pagination_items car_html)"

definition numeric_texts :: "BeautifulSoup \<Rightarrow> string list" where
  "numeric_texts car_html = filter isdigit (button_texts car_html)"

text \<open>A log line that reports an unusable fetch result.\<close>

fun unusable_line :: "level \<times> message \<Rightarrow> bool" where
  "unusable_line (lvl, Failed_to_retrieve_initial_data) = True"
| "unusable_line (lvl, Failed_to_retrieve_data_for_webpage i) = True"
| "unusable_line (lvl, m) = False"

text \<open>
  \<open>quiet w w'\<close>: from \<open>w\<close> to \<open>w'\<close> no file was written and \<open>save_list_to_csv\<close> was not
  entered, and the log only grew, by lines that do not report an unusable fetch.
\<close>

definition quiet :: "world \<Rightarrow> world \<Rightarrow> bool" where
  "quiet w w' =
     (files w' = files w \<and> sink_calls w' = sink_calls w
      \<and> (\<exists>new. log w' = log w @ new \<and> list_all (\<lambda>l. \<not> unusable_line l) new))"

text \<open>
  A listing block lacks a required element when it has no title, no price or no
  instalment tooltip. A run has ended in the fatal extraction error when the last line
  of the log is the error line of \<open>get_car_attribute\<close>.
\<close>

definition required_missing :: "card \<Rightarrow> bool" where
  "required_missing item =
     (title item = None \<or> price_total item = None \<or> tooltipMonthPay item = None)"

definition fatal_end :: "world \<Rightarrow> bool" where
  "fatal_end w =
     (log w \<noteq> [] \<and> last (log w) = (ERROR, Error_in_function_get_car_attribute AttributeError))"

text \<open>The name of the output file: \<open>car_\<close>, the timestamp and \<open>.csv\<close>.\<close>

definition output_name :: "datetime \<Rightarrow> string" where
  "output_name now = ''car_'' @ get_date_timestamp now @ ''.csv''"

text \<open>
  A complete listing block has all four elements. The header of the output, and the row
  that the specification expects for a complete listing block.
\<close>

definition complete :: "card \<Rightarrow> bool" where
  "complete item =
     (title item \<noteq> None \<and> car_other item \<noteq> None \<and> price_total item \<noteq> None
      \<and> tooltipMonthPay item \<noteq> None)"

definition header :: "string list" where
  "header = [''car_name'', ''car_mileage'', ''car_transmission'', ''car_location'',
             ''car_price'', ''car_monthly_instalment'']"

definition row_of :: "card \<Rightarrow> string list" where
  "row_of item =
     (case (title item, car_other item, price_total item, tooltipMonthPay item) of
        (Some title_text, Some spans, Some price, Some monthly) \<Rightarrow>
          [str_join '' '' (str_split title_text), span_text spans 0, span_text spans 1,
           span_text spans 2, price, monthly]
      | _ \<Rightarrow> [])"

section \<open>Example pages\<close>

text \<open>
  Three listing blocks (a complete one, one without price, one without the
  other-details container), a clock reading, and the site that shows the same page,
  without pagination, at every URL.
\<close>

definition myvi :: card where
  "myvi = \<lparr>title = Some ''Perodua  Myvi 1.5   AV'',
           car_other = Some [''45,000 km'', ''Automatic'', ''Selangor''],
           price_total = Some ''RM 45,000'', tooltipMonthPay = Some ''RM 520/mo''\<rparr>"

definition no_price :: card where
  "no_price = \<lparr>title = Some ''Perodua Myvi 1.3 G'', car_other = Some [''80,000 km''],
               price_total = None, tooltipMonthPay = Some ''RM 410/mo''\<rparr>"

definition no_details :: card where
  "no_details = \<lparr>title = Some ''Perodua Myvi 1.3 X'', car_other = None,
                 price_total = Some ''RM 38,000'', tooltipMonthPay = Some ''RM 450/mo''\<rparr>"

definition noon :: datetime where
  "noon = \<lparr>year = 2024, month = 6, day = 1, hour = 12, minute = 0, second = 0\<rparr>"

definition one_page :: "card list \<Rightarrow> site" where
  "one_page items url = Ok \<lparr>pagination_items = [], cards = items\<rparr>"

text \<open>
  A second clock reading, and two sites that show the same pages at every URL that the
  scraper fetches and differ elsewhere.
\<close>

definition new_year :: datetime where
  "new_year = \<lparr>year = 2025, month = 1, day = 1, hour = 0, minute = 0, second = 9\<rparr>"

definition site_a :: site where
  "site_a url = (if url = [] then Transport_Error else one_page [myvi, no_details] url)"

definition site_b :: site where
  "site_b url = (if url = [] then Status_Error else one_page [myvi, no_details] url)"

text \<open>
  A site of two pages: page 2 at its own URL and page 1 at every other one, both with
  the pagination buttons 1 and 2.
\<close>

definition two_pages :: "card list \<Rightarrow> card list \<Rightarrow> site" where
  "two_pages cards1 cards2 url =
     (if url = page_url (Some 2)
      then Ok \<lparr>pagination_items = [Some ''1'', Some ''2''], cards = cards2\<rparr>
      else Ok \<lparr>pagination_items = [Some ''1'', Some ''2''], cards = cards1\<rparr>)"

section \<open>Splitting and joining\<close>

lemma isspace_blank: "isspace CHR '' ''"
  by (simp add: isspace_def)

lemma split_from_words:
  "list_all (\<lambda>c. \<not> isspace c) w \<Longrightarrow> list_all word (split_from w s)"
  by (induction s arbitrary: w) (auto simp: word_def)

lemma split_from_word:
  "list_all (\<lambda>c. \<not> isspace c) v \<Longrightarrow> split_from w (v @ s) = split_from (w @ v) s"
  by (induction v arbitrary: w) auto

lemma str_split_words: "list_all word (str_split s)"
  by (simp add: str_split_def split_from_words)

text \<open>Splitting a blank-joined list of words gives the words back.\<close>

lemma split_join:
  "list_all word ws \<Longrightarrow> split_from [] (str_join '' '' ws) = ws"
proof (induction "'' ''" ws rule: str_join.induct)
  case 1
  show ?case by simp
next
  case (2 w)
  then have "split_from [] (w @ []) = split_from ([] @ w) []"
    by (intro split_from_word) (simp add: word_def)
  with 2 show ?case by (simp add: word_def)
next
  case (3 w v ws)
  then have w: "list_all (\<lambda>c. \<not> isspace c) w" "w \<noteq> []"
    by (simp_all add: word_def)
  have "split_from [] (w @ '' '' @ str_join '' '' (v # ws))
      = split_from ([] @ w) ('' '' @ str_join '' '' (v # ws))"
    using w(1) by (rule split_from_word)
  also have "\<dots> = w # split_from [] (str_join '' '' (v # ws))"
    using w(2) by (simp add: isspace_blank)
  finally show ?case using 3 by simp
qed

lemma double_space_word:
  "list_all (\<lambda>c. \<not> isspace c) w \<Longrightarrow> double_space (w @ c # s) = double_space (c # s)"
proof (induction w)
  case Nil
  show ?case by simp
next
  case (Cons a w)
  then show ?case by (cases w) simp_all
qed

lemma word_no_double_space:
  "list_all (\<lambda>c. \<not> isspace c) w \<Longrightarrow> \<not> double_space w"
  by (induction w rule: double_space.induct) simp_all

lemma join_ends:
  "list_all word ws \<Longrightarrow> ws \<noteq> [] \<Longrightarrow>
     str_join '' '' ws \<noteq> [] \<and> hd (str_join '' '' ws) = hd (hd ws)
       \<and> last (str_join '' '' ws) = last (last ws)"
  by (induction "'' ''" ws rule: str_join.induct) (auto simp: word_def)

lemma join_no_double_space:
  "list_all word ws \<Longrightarrow> \<not> double_space (str_join '' '' ws)"
proof (induction "'' ''" ws rule: str_join.induct)
  case 1
  show ?case by simp
next
  case (2 w)
  then show ?case by (simp add: word_def word_no_double_space)
next
  case (3 w v ws)
  let ?rest = "str_join '' '' (v # ws)"
  from 3 have w: "list_all (\<lambda>c. \<not> isspace c) w" and v: "word v"
    by (simp_all add: word_def)
  from 3 have "?rest \<noteq> [] \<and> hd ?rest = hd (hd (v # ws))
      \<and> last ?rest = last (last (v # ws))"
    by (intro join_ends) simp_all
  then obtain r rs where rest: "?rest = r # rs" and r: "r = hd v"
    by (cases ?rest) auto
  from v r have "\<not> isspace r"
    by (cases v) (simp_all add: word_def)
  moreover from 3 have "\<not> double_space ?rest" by simp
  ultimately have "\<not> double_space (CHR '' '' # ?rest)"
    by (simp add: rest)
  moreover have "double_space (w @ CHR '' '' # ?rest) = double_space (CHR '' '' # ?rest)"
    using w by (rule double_space_word)
  ultimately show ?case by simp
qed

lemma join_chars:
  "list_all word ws \<Longrightarrow>
     list_all (\<lambda>c. isspace c \<longrightarrow> c = CHR '' '') (str_join '' '' ws)"
  by (induction "'' ''" ws rule: str_join.induct) (auto simp: word_def list_all_iff)

lemma join_single_spaced:
  assumes "list_all word ws"
  shows "single_spaced (str_join '' '' ws)"
proof (cases "ws = []")
  case True
  then show ?thesis by (simp add: single_spaced_def)
next
  case False
  with assms have e: "str_join '' '' ws \<noteq> [] \<and> hd (str_join '' '' ws) = hd (hd ws)
       \<and> last (str_join '' '' ws) = last (last ws)"
    by (rule join_ends)
  from assms False have "word (hd ws)" "word (last ws)"
    by (simp_all add: list_all_iff)
  then have "\<not> isspace (hd (hd ws))" "\<not> isspace (last (last ws))"
    by (auto simp: word_def list_all_iff)
  with e assms show ?thesis
    by (simp add: single_spaced_def join_chars join_no_double_space)
qed

section \<open>The listing extractor\<close>

lemma car_attribute_try_name:
  "car_attribute_try item = Inr car_dict \<Longrightarrow> title item = Some title_text \<Longrightarrow>
     map_of car_dict ''car_name'' = Some (str_join '' '' (str_split title_text))"
  by (auto simp: car_attribute_try_def get_text_def Let_def update_conv'
      split: option.splits sum.splits)

lemma car_attribute_try_raises:
  "car_attribute_try item = Inl e \<Longrightarrow>
     e = AttributeError
       \<and> (title item = None \<or> price_total item = None \<or> tooltipMonthPay item = None)"
  by (auto simp: car_attribute_try_def get_text_def Let_def split: option.splits sum.splits)

text \<open>
  C7. For a listing block with a title element, the record that \<open>get_car_attribute\<close>
  returns has as \<open>car_name\<close> the title's text split on whitespace and joined with
  single blanks, and the function returns a record unless the price or the instalment
  element is missing. The joined text is single-spaced and has the words of the title's
  text; the title text \<open>Myvi   1.3  X\<close> gives \<open>Myvi 1.3 X\<close>.
\<close>

theorem car_name_normalised:
  assumes "title item = Some title_text"
  shows "(case get_car_attribute item w of
            (Inr car_dict, w') \<Rightarrow>
              map_of car_dict ''car_name'' = Some (str_join '' '' (str_split title_text))
          | (Inl e, w') \<Rightarrow> price_total item = None \<or> tooltipMonthPay item = None)
       \<and> single_spaced (str_join '' '' (str_split title_text))
       \<and> str_split (str_join '' '' (str_split title_text)) = str_split title_text
       \<and> str_join '' '' (str_split ''Myvi   1.3  X'') = ''Myvi 1.3 X''"
proof (intro conjI)
  show "case get_car_attribute item w of
          (Inr car_dict, w') \<Rightarrow>
            map_of car_dict ''car_name'' = Some (str_join '' '' (str_split title_text))
        | (Inl e, w') \<Rightarrow> price_total item = None \<or> tooltipMonthPay item = None"
  proof (cases "car_attribute_try item")
    case (Inl e)
    with assms car_attribute_try_raises [of item e] show ?thesis
      by (simp add: get_car_attribute_def)
  next
    case (Inr car_dict)
    with assms car_attribute_try_name [of item car_dict title_text] show ?thesis
      by (simp add: get_car_attribute_def)
  qed
  show "single_spaced (str_join '' '' (str_split title_text))"
    using str_split_words by (rule join_single_spaced)
  show "str_split (str_join '' '' (str_split title_text)) = str_split title_text"
    using str_split_words [of title_text] by (simp add: split_join str_split_def)
  show "str_join '' '' (str_split ''Myvi   1.3  X'') = ''Myvi 1.3 X''"
    by (simp add: str_split_def isspace_def)
qed

theorem car_name_normalised_witness:
  "title \<lparr>title = Some ''Perodua  Myvi 1.5   AV'', car_other = None,
           price_total = Some ''RM 45,000'', tooltipMonthPay = Some ''RM 520/mo''\<rparr>
     = Some ''Perodua  Myvi 1.5   AV''
   \<and> (case get_car_attribute
             \<lparr>title = Some ''Perodua  Myvi 1.5   AV'', car_other = None,
              price_total = Some ''RM 45,000'', tooltipMonthPay = Some ''RM 520/mo''\<rparr> start of
         (Inr car_dict, w') \<Rightarrow> map_of car_dict ''car_name'' = Some ''Perodua Myvi 1.5 AV''
       | (Inl e, w') \<Rightarrow> False)"
  using car_name_normalised
    [of "\<lparr>title = Some ''Perodua  Myvi 1.5   AV'', car_other = None,
          price_total = Some ''RM 45,000'', tooltipMonthPay = Some ''RM 520/mo''\<rparr>"
        "''Perodua  Myvi 1.5   AV''" start]
  by (simp add: get_car_attribute_def car_attribute_try_def get_text_def str_split_def
      isspace_def)

section \<open>Pagination discovery\<close>

lemma isdecimal_isdigit: "isdecimal s \<Longrightarrow> isdigit s"
  by (auto simp: isdecimal_def isdigit_def isdecimal_char_def isdigit_char_def list_all_iff Let_def)

lemma digit_value_bounds: "isdecimal_char c \<Longrightarrow> 0 \<le> digit_value c \<and> digit_value c \<le> 9"
  by (auto simp: isdecimal_char_def digit_value_def Let_def)

lemma foldl_decimal_nonneg:
  "list_all isdecimal_char s \<Longrightarrow> 0 \<le> acc \<Longrightarrow>
     0 \<le> foldl (\<lambda>acc c. 10 * acc + digit_value c) acc s"
proof (induction s arbitrary: acc)
  case Nil
  then show ?case by simp
next
  case (Cons c s)
  then have "0 \<le> 10 * acc + digit_value c"
    using digit_value_bounds [of c] by simp
  with Cons show ?case by simp
qed

lemma decimal_value_nonneg: "isdecimal s \<Longrightarrow> 0 \<le> decimal_value s"
  by (simp add: isdecimal_def decimal_value_def foldl_decimal_nonneg)

lemma py_int_numeral: "int_numeral s \<Longrightarrow> py_int s = Inr (decimal_value s)"
  by (simp add: int_numeral_def py_int_def)

lemma py_int_too_long:
  "isdecimal s \<Longrightarrow> int_max_str_digits < length s \<Longrightarrow> py_int s = Inl ValueError"
  by (simp add: py_int_def)

lemma int_numeral_isdigit: "int_numeral s \<Longrightarrow> isdigit s"
  by (simp add: int_numeral_def isdecimal_isdigit)

lemma page_number_loop_decimal:
  "list_all int_numeral (filter isdigit (List.map_filter (\<lambda>button. button) items)) \<Longrightarrow>
     page_number_loop items page_numbers =
       Inr (page_numbers @ map decimal_value (filter isdigit (List.map_filter (\<lambda>button. button) items)))"
proof (induction items arbitrary: page_numbers)
  case Nil
  show ?case by simp
next
  case (Cons button items)
  show ?case
  proof (cases button)
    case None
    with Cons show ?thesis by simp
  next
    case (Some t)
    with Cons show ?thesis by (auto simp: py_int_numeral split: if_splits)
  qed
qed

lemma get_page_number_list_decimal:
  "list_all int_numeral (numeric_texts car_html) \<Longrightarrow>
     get_page_number_list car_html = Inr (map decimal_value (numeric_texts car_html))"
  by (simp add: get_page_number_list_def numeric_texts_def button_texts_def page_number_loop_decimal)

lemma py_max_Max:
  assumes "ns \<noteq> []"
  shows "py_max ns = Inr (Max (set ns))"
proof (cases ns)
  case Nil
  with assms show ?thesis by simp
next
  case (Cons n rest)
  then show ?thesis using Max.set_eq_fold [of n rest] by simp
qed

text \<open>
  On a page whose numeric button texts are decimal numerals within the limit of
  \<open>int\<close>, discovery returns the maximum of their values, and 1 when there is none.
\<close>

lemma discover_decimal:
  assumes "list_all int_numeral (numeric_texts car_html)"
  shows "fst (discover car_html w) =
     Inr (if numeric_texts car_html = [] then 1
          else Max (decimal_value ` set (numeric_texts car_html)))"
  using assms
  by (simp add: discover_def get_page_number_list_decimal get_max_page_number_def py_max_Max)

lemma discover_2_5_3:
  "fst (discover \<lparr>pagination_items = [Some ''2'', Some ''...'', None, Some ''5'', Some ''3''],
                  cards = []\<rparr> w) = Inr 5"
  by (simp add: discover_def get_page_number_list_def get_max_page_number_def isdigit_def
      isdigit_char_def py_int_def int_max_str_digits_def isdecimal_def isdecimal_char_def decimal_value_def
      digit_value_def)

lemma Max_decimal_values:
  assumes "list_all int_numeral ts" and "ts \<noteq> []"
  shows "0 \<le> Max (decimal_value ` set ts)"
    and "Max (decimal_value ` set ts) < 1 \<longleftrightarrow> list_all (\<lambda>t. decimal_value t = 0) ts"
proof -
  let ?V = "decimal_value ` set ts"
  have fin: "finite ?V" and ne: "?V \<noteq> {}"
    using assms(2) by simp_all
  have nonneg: "\<forall>v\<in>?V. 0 \<le> v"
    using assms(1) by (auto simp: list_all_iff int_numeral_def decimal_value_nonneg)
  have "Max ?V \<in> ?V"
    using fin ne by (rule Max_in)
  with nonneg show "0 \<le> Max ?V" by blast
  have "Max ?V < 1 \<longleftrightarrow> (\<forall>v\<in>?V. v < 1)"
    using fin ne by (rule Max_less_iff)
  also have "\<dots> \<longleftrightarrow> (\<forall>v\<in>?V. v = 0)"
    using nonneg by force
  finally show "Max ?V < 1 \<longleftrightarrow> list_all (\<lambda>t. decimal_value t = 0) ts"
    by (simp add: list_all_iff)
qed

text \<open>
  C3 (amended). For every page whose purely numeric button texts are decimal
  numerals of at most 4300 digits, pagination discovery returns an integer that is at
  least 0; it is below 1 exactly when the page has numeric buttons and every one of
  them reads zero.
\<close>

theorem discover_bound:
  assumes "list_all int_numeral (numeric_texts car_html)"
  shows "\<exists>m. fst (discover car_html w) = Inr m \<and> 0 \<le> m
           \<and> (m < 1 \<longleftrightarrow>
                numeric_texts car_html \<noteq> []
                  \<and> list_all (\<lambda>t. decimal_value t = 0) (numeric_texts car_html))"
proof (cases "numeric_texts car_html = []")
  case True
  with assms show ?thesis by (simp add: discover_decimal)
next
  case False
  with assms Max_decimal_values [of "numeric_texts car_html"] show ?thesis
    by (simp add: discover_decimal)
qed

theorem discover_bound_witness:
  "list_all int_numeral
     (numeric_texts \<lparr>pagination_items = [Some ''2'', Some ''...'', None, Some ''5''], cards = []\<rparr>)
   \<and> fst (discover \<lparr>pagination_items = [Some ''2'', Some ''...'', None, Some ''5''], cards = []\<rparr>
          start) = Inr 5"
  using discover_bound
    [of "\<lparr>pagination_items = [Some ''2'', Some ''...'', None, Some ''5''], cards = []\<rparr>" start]
  by (simp add: int_numeral_def numeric_texts_def button_texts_def discover_def get_page_number_list_def
      get_max_page_number_def isdigit_def isdigit_char_def py_int_def int_max_str_digits_def isdecimal_def
      isdecimal_char_def decimal_value_def digit_value_def)

text \<open>
  C3 as stated fails: on a page whose only numeric button reads \<open>0\<close>, discovery
  returns 0.
\<close>

theorem discover_zero_counterexample:
  "fst (discover \<lparr>pagination_items = [Some ''0''], cards = []\<rparr> start) = Inr 0"
  by (simp add: discover_def get_page_number_list_def get_max_page_number_def isdigit_def
      isdigit_char_def py_int_def int_max_str_digits_def isdecimal_def isdecimal_char_def decimal_value_def
      digit_value_def)

text \<open>
  C2. Pagination discovery returns the maximum of the values of the purely numeric
  button texts, and 1 when there is none (\<open>discover_decimal\<close>, for the pages whose
  numeric texts are decimal numerals that \<open>int\<close> converts). The code breaks this on a
  button that reads
  superscript two: the text passes \<open>isdigit\<close>, \<open>int\<close> raises \<open>ValueError\<close>, and
  the run ends in the handler of \<open>main\<close> with nothing collected.
\<close>

theorem superscript_button_raises:
  "isdigit [CHR 0xB2]
   \<and> get_page_number_list \<lparr>pagination_items = [Some ''1'', Some [CHR 0xB2]], cards = []\<rparr>
       = Inl ValueError
   \<and> fst (discover \<lparr>pagination_items = [Some ''1'', Some [CHR 0xB2]], cards = []\<rparr> start)
       = Inl ValueError
   \<and> main (\<lambda>url. Ok \<lparr>pagination_items = [Some ''1'', Some [CHR 0xB2]], cards = []\<rparr>) now start
       = (Inr (), start\<lparr>log := [(INFO, Opening_webpage base_url), (ERROR, Uncaught ValueError)]\<rparr>)"
  by (simp add: discover_def get_page_number_list_def isdigit_def isdigit_char_def py_int_def int_max_str_digits_def
      isdecimal_def isdecimal_char_def decimal_value_def digit_value_def main_def main_try_def
      collect_def get_html_def page_url_def logging_info_def logging_error_def start_def)

section \<open>What the run leaves in the world\<close>

lemma quiet_refl: "quiet w w"
  by (simp add: quiet_def)

lemma quiet_trans: "quiet w w' \<Longrightarrow> quiet w' w'' \<Longrightarrow> quiet w w''"
  by (auto simp: quiet_def)

lemma quiet_info: "\<not> unusable_line (INFO, m) \<Longrightarrow> quiet w (logging_info m w)"
  by (simp add: quiet_def logging_info_def)

lemma quiet_error: "\<not> unusable_line (ERROR, m) \<Longrightarrow> quiet w (logging_error m w)"
  by (simp add: quiet_def logging_error_def)

lemma quiet_sleep: "quiet w (sleep n w)"
  by (simp add: quiet_def sleep_def)

lemma get_html_cases:
  "get_html www page_number w =
     (case www (page_url page_number) of
        Transport_Error \<Rightarrow> (Inl RequestException, w)
      | Status_Error \<Rightarrow> (Inl (SystemExit 1), logging_error HTTP_error_occured w)
      | Ok car_html \<Rightarrow>
          (Inr (Some car_html), logging_info (Opening_webpage (page_url page_number)) w))"
  by (simp add: get_html_def Let_def)

lemma get_html_not_None: "get_html www page_number w \<noteq> (Inr None, w')"
  by (simp add: get_html_cases split: response.splits)

lemma get_html_quiet: "quiet w (snd (get_html www page_number w))"
  by (simp add: get_html_cases quiet_refl quiet_info quiet_error split: response.splits)

lemma get_car_attribute_quiet: "quiet w (snd (get_car_attribute item w))"
  by (simp add: get_car_attribute_def quiet_info quiet_error split: sum.splits)

lemma car_loop_quiet: "quiet w (snd (car_loop items car_attributes w))"
proof (induction items arbitrary: car_attributes w)
  case Nil
  show ?case by (simp add: quiet_refl)
next
  case (Cons car rest)
  obtain r w' where step: "get_car_attribute car w = (r, w')"
    by (cases "get_car_attribute car w")
  then have q: "quiet w w'"
    using get_car_attribute_quiet [of w car] by simp
  show ?case
  proof (cases r)
    case (Inl e)
    with step q show ?thesis by simp
  next
    case (Inr car_dict)
    with step show ?thesis
      using quiet_trans [OF q Cons.IH] by simp
  qed
qed

lemma page_loop_quiet: "quiet w (snd (page_loop www pages car_attributes w))"
proof (induction pages arbitrary: car_attributes w)
  case Nil
  show ?case by (simp add: quiet_refl)
next
  case (Cons i rest)
  show ?case
  proof (cases "www (page_url (Some i))")
    case Transport_Error
    then show ?thesis by (simp add: get_html_cases quiet_refl)
  next
    case Status_Error
    then show ?thesis by (simp add: get_html_cases quiet_error)
  next
    case (Ok page)
    let ?w1 = "logging_info (Opening_webpage (page_url (Some i))) w"
    have q1: "quiet w ?w1" by (simp add: quiet_info)
    obtain r w2 where cars: "car_loop (get_car_list page) car_attributes ?w1 = (r, w2)"
      by (cases "car_loop (get_car_list page) car_attributes ?w1")
    then have q2: "quiet ?w1 w2"
      using car_loop_quiet [of ?w1 "get_car_list page" car_attributes] by simp
    show ?thesis
    proof (cases r)
      case (Inl e)
      with Ok cars q1 q2 show ?thesis
        by (auto simp: get_html_cases intro: quiet_trans)
    next
      case (Inr found)
      let ?w3 = "sleep 5 (logging_info (Completed_scraping_in_page i) w2)"
      have "quiet w2 ?w3"
        by (meson quiet_trans quiet_info quiet_sleep unusable_line.simps)
      with q1 q2 have "quiet w ?w3" by (blast intro: quiet_trans)
      then have "quiet w (snd (page_loop www rest found ?w3))"
        using Cons.IH by (rule quiet_trans)
      with Ok cars Inr show ?thesis
        by (simp add: get_html_cases)
    qed
  qed
qed

lemma discover_quiet: "quiet w (snd (discover car_html w))"
  by (auto simp: discover_def get_max_page_number_def quiet_refl quiet_info split: sum.splits)

lemma collect_quiet: "quiet w (snd (collect www w))"
proof (cases "www base_url")
  case Transport_Error
  then show ?thesis by (simp add: collect_def get_html_cases page_url_def quiet_refl)
next
  case Status_Error
  then show ?thesis by (simp add: collect_def get_html_cases page_url_def quiet_error)
next
  case (Ok car_data)
  let ?w1 = "logging_info (Opening_webpage base_url) w"
  have q1: "quiet w ?w1" by (simp add: quiet_info)
  obtain r w2 where d: "discover car_data ?w1 = (r, w2)"
    by (cases "discover car_data ?w1")
  then have q2: "quiet ?w1 w2"
    using discover_quiet [of ?w1 car_data] by simp
  show ?thesis
  proof (cases r)
    case (Inl e)
    with Ok d q1 q2 show ?thesis
      by (auto simp: collect_def get_html_cases page_url_def intro: quiet_trans)
  next
    case (Inr max_page_number)
    obtain r' w3 where l: "page_loop www [1..max_page_number] [] w2 = (r', w3)"
      by (cases "page_loop www [1..max_page_number] [] w2")
    then have "quiet w2 w3"
      using page_loop_quiet [of w2 www "[1..max_page_number]" "[]"] by simp
    with q1 q2 have "quiet w w3" by (blast intro: quiet_trans)
    with Ok d Inr l show ?thesis
      by (auto simp: collect_def get_html_cases page_url_def split: sum.splits)
  qed
qed

section \<open>Fatal extraction errors\<close>

lemma car_attribute_try_fatal:
  "required_missing item \<Longrightarrow> car_attribute_try item = Inl AttributeError"
  by (auto simp: required_missing_def car_attribute_try_def get_text_def Let_def
      split: option.splits)

lemma get_car_attribute_fatal:
  "required_missing item \<Longrightarrow>
     get_car_attribute item w =
       (Inl (SystemExit 1),
        logging_error (Error_in_function_get_car_attribute AttributeError) w)"
  by (simp add: get_car_attribute_def car_attribute_try_fatal)

lemma get_car_attribute_Inl:
  "get_car_attribute item w = (Inl e, w') \<Longrightarrow> e = SystemExit 1 \<and> fatal_end w'"
  by (auto simp: get_car_attribute_def fatal_end_def logging_error_def
      dest: car_attribute_try_raises split: sum.splits)

lemma car_loop_Inl:
  "car_loop items car_attributes w = (Inl e, w') \<Longrightarrow> e = SystemExit 1 \<and> fatal_end w'"
proof (induction items arbitrary: car_attributes w)
  case Nil
  then show ?case by simp
next
  case (Cons car rest)
  obtain r w1 where step: "get_car_attribute car w = (r, w1)"
    by (cases "get_car_attribute car w")
  show ?case
  proof (cases r)
    case (Inl e1)
    with step Cons.prems get_car_attribute_Inl [of car w e1 w1] show ?thesis by simp
  next
    case (Inr car_dict)
    with step Cons.prems have "car_loop rest (car_attributes @ [car_dict]) w1 = (Inl e, w')"
      by simp
    then show ?thesis by (rule Cons.IH)
  qed
qed

lemma car_loop_fatal:
  "list_ex required_missing items \<Longrightarrow>
     \<exists>w'. car_loop items car_attributes w = (Inl (SystemExit 1), w') \<and> fatal_end w'"
proof (induction items arbitrary: car_attributes w)
  case Nil
  then show ?case by simp
next
  case (Cons car rest)
  obtain r w1 where step: "get_car_attribute car w = (r, w1)"
    by (cases "get_car_attribute car w")
  show ?case
  proof (cases r)
    case (Inl e1)
    with step get_car_attribute_Inl [of car w e1 w1] show ?thesis by simp
  next
    case (Inr car_dict)
    with step have "\<not> required_missing car"
      using get_car_attribute_fatal [of car w] by auto
    with Cons.prems have "list_ex required_missing rest" by simp
    then have "\<exists>w'. car_loop rest (car_attributes @ [car_dict]) w1 = (Inl (SystemExit 1), w')
        \<and> fatal_end w'"
      by (rule Cons.IH)
    with step Inr show ?thesis by simp
  qed
qed

lemma page_loop_fatal:
  assumes "\<forall>j\<in>set before. \<exists>p. www (page_url (Some j)) = Ok p"
    and "www (page_url (Some i)) = Ok page"
    and "list_ex required_missing (cards page)"
  shows "\<exists>w'. page_loop www (before @ i # after) car_attributes w = (Inl (SystemExit 1), w')
           \<and> fatal_end w'"
  using assms(1)
proof (induction before arbitrary: car_attributes w)
  case Nil
  let ?w1 = "logging_info (Opening_webpage (page_url (Some i))) w"
  from assms(3) obtain w' where
    "car_loop (get_car_list page) car_attributes ?w1 = (Inl (SystemExit 1), w')" "fatal_end w'"
    using car_loop_fatal [of "cards page" car_attributes ?w1] by (auto simp: get_car_list_def)
  with assms(2) show ?case by (simp add: get_html_cases)
next
  case (Cons j before)
  then obtain p where p: "www (page_url (Some j)) = Ok p" by auto
  let ?w1 = "logging_info (Opening_webpage (page_url (Some j))) w"
  obtain r w2 where cars: "car_loop (get_car_list p) car_attributes ?w1 = (r, w2)"
    by (cases "car_loop (get_car_list p) car_attributes ?w1")
  show ?case
  proof (cases r)
    case (Inl e)
    with cars car_loop_Inl [of "get_car_list p" car_attributes ?w1 e w2] p show ?thesis
      by (simp add: get_html_cases)
  next
    case (Inr found)
    from Cons.prems have "\<forall>j\<in>set before. \<exists>p. www (page_url (Some j)) = Ok p" by simp
    from Cons.IH [OF this] p cars Inr show ?thesis
      by (simp add: get_html_cases)
  qed
qed

lemma discover_fst: "fst (discover car_html w) = fst (discover car_html w')"
  by (simp add: discover_def get_max_page_number_def split: sum.splits)

lemma collect_fatal:
  assumes "www base_url = Ok first_page"
    and "fst (discover first_page w0) = Inr m"
    and "1 \<le> i" and "i \<le> m"
    and "\<forall>j\<in>{1..<i}. \<exists>p. www (page_url (Some j)) = Ok p"
    and "www (page_url (Some i)) = Ok page"
    and "list_ex required_missing (cards page)"
  shows "\<exists>w'. collect www w = (Inl (SystemExit 1), w') \<and> fatal_end w'"
proof -
  let ?w1 = "logging_info (Opening_webpage base_url) w"
  obtain r w2 where d: "discover first_page ?w1 = (r, w2)"
    by (cases "discover first_page ?w1")
  with assms(2) discover_fst [of first_page ?w1 w0] have r: "r = Inr m" by simp
  have range: "[1..m] = [1..i - 1] @ i # [i + 1..m]"
    using assms(3,4) by (rule upto_split3)
  have "\<forall>j\<in>set [1..i - 1]. \<exists>p. www (page_url (Some j)) = Ok p"
    using assms(5) by simp
  from page_loop_fatal [OF this assms(6,7)] obtain w' where
    "page_loop www [1..m] [] w2 = (Inl (SystemExit 1), w')" "fatal_end w'"
    unfolding range by blast
  with assms(1) d r show ?thesis
    by (simp add: collect_def get_html_cases page_url_def)
qed

section \<open>Evaluating the example runs\<close>

lemmas eval_defs = one_page_def myvi_def no_price_def no_details_def noon_def start_def
  collect_def get_html_cases page_url_def discover_def get_page_number_list_def
  get_max_page_number_def get_car_list_def get_car_attribute_def car_attribute_try_def
  get_text_def span_text_def str_split_def isspace_def logging_info_def logging_error_def
  sleep_def Let_def upto.simps str_int_def str_nat.simps digit_char_def

section \<open>The end of the run\<close>

lemma main_try_cases:
  "main_try www now w =
     (case collect www w of
        (Inl e, w') \<Rightarrow> (Inl e, w')
      | (Inr None, w') \<Rightarrow> (Inr (), w')
      | (Inr (Some car_attributes), w') \<Rightarrow>
          if car_attributes \<noteq> [] then save_list_to_csv car_attributes (output_name now) w'
          else (Inr (), logging_error No_car_data_collected w'))"
  unfolding main_try_def output_name_def Let_def ..

lemma main_failed:
  assumes "fst (collect www w) = Inl e"
  shows "main www now w =
     (if is_Exception e then (Inr (), logging_error (Uncaught e) (snd (collect www w)))
      else (Inl e, snd (collect www w)))"
  using assms by (cases "collect www w") (simp add: main_def main_try_cases)

lemma logging_error_frame:
  "files (logging_error m w) = files w" "sink_calls (logging_error m w) = sink_calls w"
  by (simp_all add: logging_error_def)

lemma collect_frame:
  "files (snd (collect www w)) = files w" "sink_calls (snd (collect www w)) = sink_calls w"
  using collect_quiet [of w www] by (simp_all add: quiet_def)

text \<open>
  C10. When the collection fails (a fetch, the discovery or an extraction raises, also
  after records were appended), \<open>main\<close> ends without entering \<open>save_list_to_csv\<close>
  and without writing a file: an \<open>Exception\<close> is logged by the handler, a
  \<open>SystemExit\<close> ends the process.
\<close>

theorem failure_discards_records:
  assumes "fst (collect www w) = Inl e"
  shows "fst (main www now w) = (if is_Exception e then Inr () else Inl e)
       \<and> sink_calls (snd (main www now w)) = sink_calls w
       \<and> files (snd (main www now w)) = files w"
  using assms by (simp add: main_failed logging_error_frame collect_frame)

theorem failure_discards_records_witness:
  "fst (collect (one_page [myvi, no_price, myvi]) start) = Inl (SystemExit 1)
   \<and> (INFO, Appended [(''car_name'', ''Perodua Myvi 1.5 AV''), (''car_mileage'', ''45,000 km''),
          (''car_transmission'', ''Automatic''), (''car_location'', ''Selangor''),
          (''car_price'', ''RM 45,000''), (''car_monthly_instalment'', ''RM 520/mo'')])
        \<in> set (log (snd (collect (one_page [myvi, no_price, myvi]) start)))
   \<and> fst (main (one_page [myvi, no_price, myvi]) noon start) = Inl (SystemExit 1)
   \<and> sink_calls (snd (main (one_page [myvi, no_price, myvi]) noon start)) = 0
   \<and> files (snd (main (one_page [myvi, no_price, myvi]) noon start)) = []"
proof -
  have c: "collect (one_page [myvi, no_price, myvi]) start =
      (Inl (SystemExit 1),
       \<lparr>log = [(INFO, Opening_webpage base_url), (INFO, Max_page_number_is 1),
               (INFO, Opening_webpage (base_url @ ''?pageNo=1'')),
               (INFO, Appended [(''car_name'', ''Perodua Myvi 1.5 AV''),
                  (''car_mileage'', ''45,000 km''), (''car_transmission'', ''Automatic''),
                  (''car_location'', ''Selangor''), (''car_price'', ''RM 45,000''),
                  (''car_monthly_instalment'', ''RM 520/mo'')]),
               (ERROR, Error_in_function_get_car_attribute AttributeError)],
        files = [], slept = 0, sink_calls = 0\<rparr>)"
    by (simp add: eval_defs str_int_def)
  then have "fst (collect (one_page [myvi, no_price, myvi]) start) = Inl (SystemExit 1)"
    by simp
  from this failure_discards_records [OF this, of noon] c show ?thesis
    by (simp add: start_def)
qed

text \<open>
  C6. When the page loop ends with an empty list of records, \<open>main\<close> only logs that
  no car data was collected: \<open>save_list_to_csv\<close> is not entered and no file is written.
\<close>

theorem empty_result_not_persisted:
  assumes "fst (collect www w) = Inr (Some [])"
  shows "main www now w = (Inr (), logging_error No_car_data_collected (snd (collect www w)))
       \<and> sink_calls (snd (main www now w)) = sink_calls w
       \<and> files (snd (main www now w)) = files w"
proof -
  from assms have "main www now w
      = (Inr (), logging_error No_car_data_collected (snd (collect www w)))"
    by (cases "collect www w") (simp add: main_def main_try_cases)
  then show ?thesis by (simp add: logging_error_frame collect_frame)
qed

theorem empty_result_not_persisted_witness:
  "fst (collect (one_page []) start) = Inr (Some [])
   \<and> fst (main (one_page []) noon start) = Inr ()
   \<and> last (log (snd (main (one_page []) noon start))) = (ERROR, No_car_data_collected)
   \<and> sink_calls (snd (main (one_page []) noon start)) = 0
   \<and> files (snd (main (one_page []) noon start)) = []"
proof -
  have c: "collect (one_page []) start =
      (Inr (Some []),
       \<lparr>log = [(INFO, Opening_webpage base_url), (INFO, Max_page_number_is 1),
               (INFO, Opening_webpage (base_url @ ''?pageNo=1'')),
               (INFO, Completed_scraping_in_page 1)],
        files = [], slept = 5, sink_calls = 0\<rparr>)"
    by (simp add: eval_defs str_int_def)
  then have "fst (collect (one_page []) start) = Inr (Some [])" by simp
  from this empty_result_not_persisted [OF this, of noon] c show ?thesis
    by (simp add: logging_error_def start_def)
qed

text \<open>
  C4. For a listing block without title, price or instalment tooltip,
  \<open>get_car_attribute\<close> logs the error and exits the process with status 1. In a run
  that reaches the block (the discovery fetch and the fetches of the pages up to the
  block's page succeed), \<open>main\<close> ends with that exit: the error line is the last line
  of the log, no further listing is read and no file is written.
\<close>

theorem missing_required_element_is_fatal:
  assumes "required_missing item"
  shows "get_car_attribute item w =
           (Inl (SystemExit 1),
            logging_error (Error_in_function_get_car_attribute AttributeError) w)
       \<and> (www base_url = Ok first_page \<and> fst (discover first_page w0) = Inr m
            \<and> 1 \<le> i \<and> i \<le> m
            \<and> (\<forall>j\<in>{1..<i}. \<exists>p. www (page_url (Some j)) = Ok p)
            \<and> www (page_url (Some i)) = Ok page \<and> item \<in> set (cards page)
          \<longrightarrow> (\<exists>w'. main www now w = (Inl (SystemExit 1), w') \<and> fatal_end w'
                 \<and> files w' = files w \<and> sink_calls w' = sink_calls w))"
proof (intro conjI impI)
  show "get_car_attribute item w =
          (Inl (SystemExit 1),
           logging_error (Error_in_function_get_car_attribute AttributeError) w)"
    using assms by (rule get_car_attribute_fatal)
next
  assume run: "www base_url = Ok first_page \<and> fst (discover first_page w0) = Inr m
      \<and> 1 \<le> i \<and> i \<le> m
      \<and> (\<forall>j\<in>{1..<i}. \<exists>p. www (page_url (Some j)) = Ok p)
      \<and> www (page_url (Some i)) = Ok page \<and> item \<in> set (cards page)"
  with assms have "list_ex required_missing (cards page)"
    by (auto simp: list_ex_iff)
  with run obtain w' where c: "collect www w = (Inl (SystemExit 1), w')" and f: "fatal_end w'"
    using collect_fatal [of www first_page w0 m i page w] by blast
  from c have "main www now w = (Inl (SystemExit 1), w')"
    using main_failed [of www w "SystemExit 1" now] by simp
  moreover from c have "files w' = files w" "sink_calls w' = sink_calls w"
    using collect_frame [of www w] by simp_all
  ultimately show "\<exists>w'. main www now w = (Inl (SystemExit 1), w') \<and> fatal_end w'
      \<and> files w' = files w \<and> sink_calls w' = sink_calls w"
    using f by simp
qed

theorem missing_required_element_is_fatal_witness:
  "required_missing no_price
   \<and> (\<exists>w'. main (one_page [myvi, no_price, myvi]) noon start = (Inl (SystemExit 1), w')
          \<and> fatal_end w' \<and> files w' = files start \<and> sink_calls w' = sink_calls start)"
  using missing_required_element_is_fatal
    [of no_price start "one_page [myvi, no_price, myvi]"
        "\<lparr>pagination_items = [], cards = [myvi, no_price, myvi]\<rparr>" start 1 1
        "\<lparr>pagination_items = [], cards = [myvi, no_price, myvi]\<rparr>" noon]
  by (simp add: required_missing_def no_price_def one_page_def discover_def
      get_page_number_list_def get_max_page_number_def)

lemma save_list_to_csv_log:
  "\<exists>new. log (snd (save_list_to_csv list_of_car filename w)) = log w @ new
          \<and> list_all (\<lambda>l. \<not> unusable_line l) new"
  by (auto simp: save_list_to_csv_def Let_def logging_info_def
      split: list.splits prod.splits option.splits)

lemma main_log:
  "\<exists>new. log (snd (main www now w)) = log w @ new \<and> list_all (\<lambda>l. \<not> unusable_line l) new"
proof -
  obtain r w1 where c: "collect www w = (r, w1)"
    by (cases "collect www w")
  with collect_quiet [of w www] obtain new1 where
    new1: "log w1 = log w @ new1" "list_all (\<lambda>l. \<not> unusable_line l) new1"
    by (auto simp: quiet_def)
  have "\<exists>new2. log (snd (main www now w)) = log w1 @ new2
      \<and> list_all (\<lambda>l. \<not> unusable_line l) new2"
  proof (cases r)
    case (Inl e)
    with c show ?thesis
      using main_failed [of www w e now] by (simp add: logging_error_def)
  next
    case (Inr found)
    show ?thesis
    proof (cases found)
      case None
      with c Inr show ?thesis by (simp add: main_def main_try_cases)
    next
      case (Some car_attributes)
      obtain r2 w2 where s: "save_list_to_csv car_attributes (output_name now) w1 = (r2, w2)"
        by (cases "save_list_to_csv car_attributes (output_name now) w1")
      with save_list_to_csv_log [of car_attributes "output_name now" w1]
      obtain new where "log w2 = log w1 @ new" "list_all (\<lambda>l. \<not> unusable_line l) new"
        by auto
      with c Inr Some s show ?thesis
        by (cases r2) (auto simp: main_def main_try_cases logging_error_def)
    qed
  qed
  with new1 show ?thesis by auto
qed

text \<open>
  C9. \<open>get_html\<close> returns the parsed page, exits the process on an HTTP status error,
  or lets the transport exception through; it never returns \<open>None\<close>. So no run of
  \<open>main\<close> logs an unusable fetch result, neither after the discovery fetch nor in the
  page loop.
\<close>

theorem get_html_never_None:
  "fst (get_html www page_number w) =
     (case www (page_url page_number) of
        Transport_Error \<Rightarrow> Inl RequestException
      | Status_Error \<Rightarrow> Inl (SystemExit 1)
      | Ok car_html \<Rightarrow> Inr (Some car_html))
   \<and> fst (get_html www page_number w) \<noteq> Inr None
   \<and> (\<exists>new. log (snd (main www now w)) = log w @ new
         \<and> list_all (\<lambda>l. \<not> unusable_line l) new)"
  using main_log [of www now w]
  by (simp add: get_html_cases split: response.splits)

section \<open>The other-details container\<close>

text \<open>
  With the required elements, the record has the three other-details keys when the
  container is there, each with its span's text or the sentinel, and none of them
  when the container is missing.
\<close>

lemma other_details_present:
  assumes "\<not> required_missing item"
  shows "\<exists>car_dict. fst (get_car_attribute item w) = Inr car_dict
     \<and> (case car_other item of
           Some spans \<Rightarrow>
             map_of car_dict ''car_mileage'' = Some (span_text spans 0)
               \<and> map_of car_dict ''car_transmission'' = Some (span_text spans 1)
               \<and> map_of car_dict ''car_location'' = Some (span_text spans 2)
         | None \<Rightarrow>
             map_of car_dict ''car_mileage'' = None
               \<and> map_of car_dict ''car_transmission'' = None
               \<and> map_of car_dict ''car_location'' = None)"
  using assms
  by (auto simp: required_missing_def get_car_attribute_def car_attribute_try_def get_text_def
      Let_def split: option.splits)

text \<open>
  C1. With the other-details container, the record has the three keys, each with the
  text of its span or the sentinel \<open>None\<close> (\<open>other_details_present\<close>). Without the
  container the code sets none of the three keys, where the claim says the sentinel:
  the record has three keys only, and when such a record comes first, the header has
  three columns and the first complete record makes the writer raise \<open>ValueError\<close>.
\<close>

theorem missing_container_omits_keys:
  "car_other no_details = None
   \<and> fst (get_car_attribute no_details start) =
        Inr [(''car_name'', ''Perodua Myvi 1.3 X''), (''car_price'', ''RM 38,000''),
             (''car_monthly_instalment'', ''RM 450/mo'')]
   \<and> fst (main (one_page [no_details, myvi]) noon start) = Inr ()
   \<and> last (log (snd (main (one_page [no_details, myvi]) noon start)))
        = (ERROR, Uncaught ValueError)
   \<and> files (snd (main (one_page [no_details, myvi]) noon start)) =
        [(''car_20240601120000.csv'',
          [[''car_name'', ''car_price'', ''car_monthly_instalment''],
           [''Perodua Myvi 1.3 X'', ''RM 38,000'', ''RM 450/mo'']])]"
proof -
  have "\<exists>w1. collect (one_page [no_details, myvi]) start =
      (Inr (Some [[(''car_name'', ''Perodua Myvi 1.3 X''), (''car_price'', ''RM 38,000''),
                   (''car_monthly_instalment'', ''RM 450/mo'')],
                  [(''car_name'', ''Perodua Myvi 1.5 AV''), (''car_mileage'', ''45,000 km''),
                   (''car_transmission'', ''Automatic''), (''car_location'', ''Selangor''),
                   (''car_price'', ''RM 45,000''), (''car_monthly_instalment'', ''RM 520/mo'')]]),
       w1) \<and> files w1 = []"
    by (simp add: eval_defs)
  then obtain w1 where c: "collect (one_page [no_details, myvi]) start =
      (Inr (Some [[(''car_name'', ''Perodua Myvi 1.3 X''), (''car_price'', ''RM 38,000''),
                   (''car_monthly_instalment'', ''RM 450/mo'')],
                  [(''car_name'', ''Perodua Myvi 1.5 AV''), (''car_mileage'', ''45,000 km''),
                   (''car_transmission'', ''Automatic''), (''car_location'', ''Selangor''),
                   (''car_price'', ''RM 45,000''), (''car_monthly_instalment'', ''RM 520/mo'')]]),
       w1)" and f: "files w1 = []"
    by blast
  have n: "output_name noon = ''car_20240601120000.csv''"
    by (simp add: output_name_def get_date_timestamp_def two_digits_def noon_def
        str_nat.simps digit_char_def)
  have m: "main (one_page [no_details, myvi]) noon start =
      (Inr (), logging_error (Uncaught ValueError)
         (w1\<lparr>sink_calls := Suc (sink_calls w1),
              files := [(''car_20240601120000.csv'',
                [[''car_name'', ''car_price'', ''car_monthly_instalment''],
                 [''Perodua Myvi 1.3 X'', ''RM 38,000'', ''RM 450/mo'']])]\<rparr>))"
    using c f n
    by (simp add: main_def main_try_cases save_list_to_csv_def dict_to_list_def Let_def)
  have "car_other no_details = None"
    by (simp add: no_details_def)
  moreover have "fst (get_car_attribute no_details start) =
        Inr [(''car_name'', ''Perodua Myvi 1.3 X''), (''car_price'', ''RM 38,000''),
             (''car_monthly_instalment'', ''RM 450/mo'')]"
    by (simp add: eval_defs)
  ultimately show ?thesis
    using m by (simp add: logging_error_def)
qed

section \<open>Running twice\<close>

lemma page_loop_cong:
  "\<forall>i\<in>set pages. www (page_url (Some i)) = www' (page_url (Some i)) \<Longrightarrow>
     page_loop www pages car_attributes w = page_loop www' pages car_attributes w"
proof (induction pages arbitrary: car_attributes w)
  case Nil
  show ?case by simp
next
  case (Cons i rest)
  then have here: "www (page_url (Some i)) = www' (page_url (Some i))"
    and IH: "\<And>car_attributes w. page_loop www rest car_attributes w
               = page_loop www' rest car_attributes w"
    by simp_all
  show ?case
    by (simp add: get_html_cases here IH split: response.splits prod.splits sum.splits)
qed

lemma collect_cong:
  assumes "www base_url = www' base_url"
    and "\<forall>i. 1 \<le> i \<longrightarrow> www (page_url (Some i)) = www' (page_url (Some i))"
  shows "collect www w = collect www' w"
proof -
  have "page_loop www [1..m] [] v = page_loop www' [1..m] [] v" for m v
    using assms(2) by (intro page_loop_cong) simp
  with assms(1) show ?thesis
    by (simp add: collect_def get_html_cases page_url_def
        split: response.splits prod.splits sum.splits)
qed

lemma save_list_to_csv_files:
  "\<exists>rows. \<forall>filename. files (snd (save_list_to_csv (first # rest) filename w))
      = AList.update filename rows (files w)
    \<and> fst (save_list_to_csv (first # rest) filename w) = fst (save_list_to_csv (first # rest) [] w)"
  by (auto simp: save_list_to_csv_def Let_def logging_info_def
      split: prod.splits option.splits)

lemma main_rerun:
  assumes "collect www w = collect www' w"
  shows "fst (main www now w) = fst (main www' now' w)
       \<and> ((files (snd (main www now w)) = files w \<and> files (snd (main www' now' w)) = files w)
          \<or> (\<exists>rows. files (snd (main www now w)) = AList.update (output_name now) rows (files w)
                \<and> files (snd (main www' now' w))
                    = AList.update (output_name now') rows (files w)))"
proof -
  obtain r w1 where c: "collect www w = (r, w1)"
    by (cases "collect www w")
  with assms have c': "collect www' w = (r, w1)" by simp
  from c have f: "files w1 = files w"
    using collect_frame(1) [of www w] by simp
  show ?thesis
  proof (cases r)
    case (Inl e)
    with c c' f show ?thesis
      by (simp add: main_def main_try_cases logging_error_def)
  next
    case (Inr found)
    show ?thesis
    proof (cases found)
      case None
      with c c' f Inr show ?thesis by (simp add: main_def main_try_cases)
    next
      case (Some car_attributes)
      show ?thesis
      proof (cases car_attributes)
        case Nil
        with c c' f Inr Some show ?thesis
          by (simp add: main_def main_try_cases logging_error_def)
      next
        case (Cons first rest)
        from save_list_to_csv_files [of first rest w1] obtain rows where
          rows: "\<And>filename. files (snd (save_list_to_csv (first # rest) filename w1))
              = AList.update filename rows (files w1)"
          and res: "\<And>filename. fst (save_list_to_csv (first # rest) filename w1)
              = fst (save_list_to_csv (first # rest) [] w1)"
          by blast
        have m: "main v t w =
            (case save_list_to_csv (first # rest) (output_name t) w1 of
               (Inl e, w') \<Rightarrow>
                 if is_Exception e then (Inr (), logging_error (Uncaught e) w') else (Inl e, w')
             | (Inr u, w') \<Rightarrow> (Inr u, w'))"
          if "collect v w = (r, w1)" for v t
          using that Inr Some Cons by (simp add: main_def main_try_cases)
        have files_main: "files (snd (main v t w)) = AList.update (output_name t) rows (files w)"
          and fst_main: "fst (main v t w) =
             (case fst (save_list_to_csv (first # rest) [] w1) of
                Inl e \<Rightarrow> if is_Exception e then Inr () else Inl e | Inr u \<Rightarrow> Inr u)"
          if "collect v w = (r, w1)" for v t
          using rows [of "output_name t"] res [of "output_name t"] f
          by (auto simp: m [OF that] logging_error_def split: prod.splits sum.splits)
        from files_main [OF c] files_main [OF c'] fst_main [OF c] fst_main [OF c']
        show ?thesis by auto
      qed
    qed
  qed
qed

text \<open>
  C8. Two runs that are shown the same pages (the same answer at the base URL and at
  the URL of every page number from 1 on) collect the same records, with the same log
  up to that point, whatever the clock reads; they end in the same way, and either
  neither writes a file or both write the same rows, each under the name that its own
  timestamp gives.
\<close>

theorem rerun_same_records:
  assumes "www base_url = www' base_url"
    and "\<forall>i. 1 \<le> i \<longrightarrow> www (page_url (Some i)) = www' (page_url (Some i))"
  shows "collect www w = collect www' w
       \<and> fst (main www now w) = fst (main www' now' w)
       \<and> ((files (snd (main www now w)) = files w \<and> files (snd (main www' now' w)) = files w)
          \<or> (\<exists>rows. files (snd (main www now w)) = AList.update (output_name now) rows (files w)
                \<and> files (snd (main www' now' w))
                    = AList.update (output_name now') rows (files w)))"
  using main_rerun [OF collect_cong [OF assms]] collect_cong [OF assms] by blast


theorem rerun_same_records_witness:
  "site_a [] \<noteq> site_b []
   \<and> collect site_a start = collect site_b start
   \<and> fst (main site_a noon start) = fst (main site_b new_year start)
   \<and> map snd (files (snd (main site_a noon start)))
       = map snd (files (snd (main site_b new_year start)))"
  using rerun_same_records [of site_a site_b start noon new_year]
  by (auto simp: site_a_def site_b_def base_url_def page_url_def one_page_def start_def)

section \<open>Two pages, five rows\<close>

lemma car_attribute_try_complete:
  "complete item \<Longrightarrow> car_attribute_try item = Inr (zip header (row_of item))"
  by (auto simp: complete_def car_attribute_try_def get_text_def header_def row_of_def Let_def)

lemma car_loop_complete:
  "list_all complete items \<Longrightarrow>
     fst (car_loop items car_attributes w)
       = Inr (car_attributes @ map (\<lambda>item. zip header (row_of item)) items)"
proof (induction items arbitrary: car_attributes w)
  case Nil
  show ?case by simp
next
  case (Cons car rest)
  then show ?case
    by (simp add: get_car_attribute_def car_attribute_try_complete)
qed

lemma row_of_length: "complete item \<Longrightarrow> length (row_of item) = 6"
  by (auto simp: complete_def row_of_def)

lemma dict_to_list_complete:
  "complete item \<Longrightarrow> dict_to_list header (zip header (row_of item)) = Inr (row_of item)"
  by (auto simp: complete_def row_of_def dict_to_list_def header_def)

lemma writerows_complete:
  "list_all complete items \<Longrightarrow>
     writerows header (map (\<lambda>item. zip header (row_of item)) items) written
       = (None, written @ map row_of items)"
  by (induction items arbitrary: written) (simp_all add: dict_to_list_complete)

lemma save_complete:
  assumes "list_all complete items" and "items \<noteq> []"
  shows "save_list_to_csv (map (\<lambda>item. zip header (row_of item)) items) filename w
     = (Inr (), logging_info (Data_has_been_inserted_into_file filename)
          (w\<lparr>sink_calls := Suc (sink_calls w),
             files := AList.update filename (header # map row_of items) (files w)\<rparr>))"
proof -
  obtain item rest where items: "items = item # rest"
    using assms(2) by (cases items) auto
  with assms(1) have "complete item" by simp
  then have keys: "map fst (zip header (row_of item)) = header"
    by (simp add: row_of_length header_def)
  from assms(1) have "writerows header (map (\<lambda>item. zip header (row_of item)) items) [header]
      = (None, [header] @ map row_of items)"
    by (rule writerows_complete)
  with keys items show ?thesis
    by (simp add: save_list_to_csv_def Let_def)
qed


lemma page_loop_complete:
  "list_all2 (\<lambda>i page. www (page_url (Some i)) = Ok page \<and> list_all complete (cards page))
       pages shown \<Longrightarrow>
     fst (page_loop www pages car_attributes w)
       = Inr (car_attributes
               @ map (\<lambda>item. zip header (row_of item)) (concat (map cards shown)))"
proof (induction pages shown arbitrary: car_attributes w rule: list_all2_induct)
  case Nil
  show ?case by simp
next
  case (Cons i pages page shown)
  let ?w1 = "logging_info (Opening_webpage (page_url (Some i))) w"
  obtain r w2 where cars: "car_loop (cards page) car_attributes ?w1 = (r, w2)"
    by (cases "car_loop (cards page) car_attributes ?w1")
  with Cons.hyps(1) car_loop_complete [of "cards page" car_attributes ?w1]
  have r: "r = Inr (car_attributes @ map (\<lambda>item. zip header (row_of item)) (cards page))"
    by simp
  from Cons.hyps(1) cars r show ?case
    by (simp add: get_html_cases get_car_list_def Cons.IH)
qed

lemma vals:
  "int_numeral ''1''" "decimal_value ''1'' = 1" "int_numeral ''2''" "decimal_value ''2'' = 2"
  by (simp_all add: int_numeral_def int_max_str_digits_def isdecimal_def isdecimal_char_def
      decimal_value_def digit_value_def)

lemma discover_1_2:
  assumes "set (numeric_texts car_html) = {''1'', ''2''}"
  shows "fst (discover car_html w) = Inr 2"
proof -
  have "\<forall>t\<in>set (numeric_texts car_html). int_numeral t"
  proof
    fix t assume "t \<in> set (numeric_texts car_html)"
    then have "t \<in> {''1'', ''2''}" by (simp only: assms)
    then have "t = ''1'' \<or> t = ''2''" by (simp only: insert_iff empty_iff simp_thms)
    then show "int_numeral t" using vals(1,3) by (elim disjE) (simp_all only:)
  qed
  then have dec: "list_all int_numeral (numeric_texts car_html)"
    by (simp only: list_all_iff)
  have "''1'' \<in> set (numeric_texts car_html)"
    by (simp only: assms insert_iff simp_thms)
  then have ne: "numeric_texts car_html \<noteq> []"
    by (cases "numeric_texts car_html") simp_all
  have "decimal_value ` set (numeric_texts car_html) = {1, 2}"
    by (simp only: assms image_insert image_empty vals)
  then have "Max (decimal_value ` set (numeric_texts car_html)) = 2"
    by simp
  with dec ne show ?thesis by (simp add: discover_decimal)
qed

text \<open>
  C5 (amended). On a site whose first page shows the pagination buttons 1 and 2, with
  three listing blocks on page 1 and two on page 2, all of them complete, \<open>main\<close>
  calls \<open>save_list_to_csv\<close> once and the output file has the header \<open>car_name\<close>,
  \<open>car_mileage\<close>, \<open>car_transmission\<close>, \<open>car_location\<close>, \<open>car_price\<close>,
  \<open>car_monthly_instalment\<close> and then five rows: those of page 1 in document order,
  then those of page 2.
\<close>

theorem two_pages_five_rows:
  assumes "www base_url = Ok first_page"
    and "set (numeric_texts first_page) = {''1'', ''2''}"
    and "www (page_url (Some 1)) = Ok page1" and "www (page_url (Some 2)) = Ok page2"
    and "length (cards page1) = 3" and "length (cards page2) = 2"
    and "list_all complete (cards page1 @ cards page2)"
  shows "\<exists>w'. main www now w = (Inr (), w')
          \<and> sink_calls w' = Suc (sink_calls w)
          \<and> files w' = AList.update (output_name now)
                (header # map row_of (cards page1 @ cards page2)) (files w)
          \<and> length (map row_of (cards page1 @ cards page2)) = 5"
proof -
  define items where "items = cards page1 @ cards page2"
  define records where "records = map (\<lambda>item. zip header (row_of item)) items"
  let ?w1 = "logging_info (Opening_webpage base_url) w"
  obtain r w2 where d: "discover first_page ?w1 = (r, w2)"
    by (cases "discover first_page ?w1")
  with discover_1_2 [OF assms(2), of ?w1] have r: "r = Inr 2" by simp
  obtain r' w3 where l: "page_loop www [1..2] [] w2 = (r', w3)"
    by (cases "page_loop www [1..2] [] w2")
  have "list_all2 (\<lambda>i page. www (page_url (Some i)) = Ok page \<and> list_all complete (cards page))
      [1, 2] [page1, page2]"
    using assms(3,4,7) by simp
  from page_loop_complete [OF this, of "[]" w2] l have r': "r' = Inr records"
    by (simp add: upto.simps records_def items_def)
  from assms(1) d r l r' have c: "collect www w = (Inr (Some records), w3)"
    by (simp add: collect_def get_html_cases page_url_def)
  then have frame: "files w3 = files w" "sink_calls w3 = sink_calls w"
    using collect_frame [of www w] by simp_all
  from assms(5,6) have len: "length items = 5" and ne: "items \<noteq> []"
    by (auto simp: items_def)
  from assms(7) have all: "list_all complete items"
    by (simp add: items_def)
  have s: "save_list_to_csv records (output_name now) w3
     = (Inr (), logging_info (Data_has_been_inserted_into_file (output_name now))
          (w3\<lparr>sink_calls := Suc (sink_calls w3),
              files := AList.update (output_name now) (header # map row_of items) (files w3)\<rparr>))"
    unfolding records_def using all ne by (rule save_complete)
  from ne have "records \<noteq> []" by (simp add: records_def)
  with c s have "main www now w
     = (Inr (), logging_info (Data_has_been_inserted_into_file (output_name now))
          (w3\<lparr>sink_calls := Suc (sink_calls w3),
              files := AList.update (output_name now) (header # map row_of items) (files w3)\<rparr>))"
    by (simp add: main_def main_try_cases)
  with frame len show ?thesis
    unfolding items_def by (simp add: logging_info_def)
qed

theorem two_pages_five_rows_witness:
  "two_pages [myvi, myvi, myvi] [myvi, myvi] base_url
     = Ok \<lparr>pagination_items = [Some ''1'', Some ''2''], cards = [myvi, myvi, myvi]\<rparr>
   \<and> list_all complete [myvi, myvi, myvi, myvi, myvi]
   \<and> fst (main (two_pages [myvi, myvi, myvi] [myvi, myvi]) noon start) = Inr ()
   \<and> files (snd (main (two_pages [myvi, myvi, myvi] [myvi, myvi]) noon start)) =
       [(''car_20240601120000.csv'',
         [[''car_name'', ''car_mileage'', ''car_transmission'', ''car_location'',
           ''car_price'', ''car_monthly_instalment''],
          [''Perodua Myvi 1.5 AV'', ''45,000 km'', ''Automatic'', ''Selangor'',
           ''RM 45,000'', ''RM 520/mo''],
          [''Perodua Myvi 1.5 AV'', ''45,000 km'', ''Automatic'', ''Selangor'',
           ''RM 45,000'', ''RM 520/mo''],
          [''Perodua Myvi 1.5 AV'', ''45,000 km'', ''Automatic'', ''Selangor'',
           ''RM 45,000'', ''RM 520/mo''],
          [''Perodua Myvi 1.5 AV'', ''45,000 km'', ''Automatic'', ''Selangor'',
           ''RM 45,000'', ''RM 520/mo''],
          [''Perodua Myvi 1.5 AV'', ''45,000 km'', ''Automatic'', ''Selangor'',
           ''RM 45,000'', ''RM 520/mo'']])]"
proof -
  have row: "row_of myvi = [''Perodua Myvi 1.5 AV'', ''45,000 km'', ''Automatic'', ''Selangor'',
           ''RM 45,000'', ''RM 520/mo'']"
    by (simp add: row_of_def myvi_def span_text_def str_split_def isspace_def)
  have name: "output_name noon = ''car_20240601120000.csv''"
    by (simp add: output_name_def get_date_timestamp_def two_digits_def noon_def
        str_nat.simps digit_char_def)
  have urls: "base_url \<noteq> page_url (Some 2)" "page_url (Some 1) \<noteq> page_url (Some 2)"
    by (simp_all add: page_url_def base_url_def str_int_def str_nat.simps digit_char_def)
  have c: "complete myvi"
    by (simp add: complete_def myvi_def)
  have "numeric_texts \<lparr>pagination_items = [Some ''1'', Some ''2''],
      cards = [myvi, myvi, myvi]\<rparr> = [''1'', ''2'']"
    by (simp add: numeric_texts_def button_texts_def isdigit_def isdigit_char_def)
  then have n: "set (numeric_texts \<lparr>pagination_items = [Some ''1'', Some ''2''],
      cards = [myvi, myvi, myvi]\<rparr>) = {''1'', ''2''}"
    by (simp only: list.set)
  let ?www = "two_pages [myvi, myvi, myvi] [myvi, myvi]"
  let ?page1 = "\<lparr>pagination_items = [Some ''1'', Some ''2''], cards = [myvi, myvi, myvi]\<rparr>"
  let ?page2 = "\<lparr>pagination_items = [Some ''1'', Some ''2''], cards = [myvi, myvi]\<rparr>"
  have h1: "?www base_url = Ok ?page1" and h3: "?www (page_url (Some 1)) = Ok ?page1"
    and h4: "?www (page_url (Some 2)) = Ok ?page2"
    using urls by (simp_all add: two_pages_def)
  have h5: "length (cards ?page1) = 3" and h6: "length (cards ?page2) = 2"
    by simp_all
  have h7: "list_all complete (cards ?page1 @ cards ?page2)"
    using c by simp
  from two_pages_five_rows [OF h1 n h3 h4 h5 h6 h7, of noon start]
  obtain w' where "main ?www noon start = (Inr (), w')"
    and "files w' = AList.update (output_name noon)
      (header # map row_of (cards ?page1 @ cards ?page2)) (files start)"
    by blast
  with h1 h7 row name show ?thesis
    by (simp add: header_def start_def)
qed

text \<open>
  C5 as stated fails: with a listing block without price on page 1, the run exits
  with status 1 and writes no file.
\<close>

theorem two_pages_missing_price_counterexample:
  "length [myvi, no_price, myvi] = 3 \<and> length [myvi, myvi] = 2
   \<and> fst (main (two_pages [myvi, no_price, myvi] [myvi, myvi]) noon start) = Inl (SystemExit 1)
   \<and> files (snd (main (two_pages [myvi, no_price, myvi] [myvi, myvi]) noon start)) = []"
proof -
  have urls: "base_url \<noteq> page_url (Some 2)" "page_url (Some 1) \<noteq> page_url (Some 2)"
    by (simp_all add: page_url_def base_url_def str_int_def str_nat.simps digit_char_def)
  have d: "fst (discover \<lparr>pagination_items = [Some ''1'', Some ''2''],
      cards = [myvi, no_price, myvi]\<rparr> start) = Inr 2"
    by (simp add: discover_def get_page_number_list_def get_max_page_number_def isdigit_def
        isdigit_char_def py_int_def int_max_str_digits_def isdecimal_def isdecimal_char_def decimal_value_def
        digit_value_def)
  have "required_missing no_price"
    by (simp add: required_missing_def no_price_def)
  then have "list_ex required_missing
      (cards \<lparr>pagination_items = [Some ''1'', Some ''2''], cards = [myvi, no_price, myvi]\<rparr>)"
    by simp
  with urls d obtain w' where
    "collect (two_pages [myvi, no_price, myvi] [myvi, myvi]) start = (Inl (SystemExit 1), w')"
    using collect_fatal
      [of "two_pages [myvi, no_price, myvi] [myvi, myvi]"
          "\<lparr>pagination_items = [Some ''1'', Some ''2''], cards = [myvi, no_price, myvi]\<rparr>"
          start 2 1
          "\<lparr>pagination_items = [Some ''1'', Some ''2''], cards = [myvi, no_price, myvi]\<rparr>"
          start]
    by (auto simp: two_pages_def)
  then show ?thesis
    using main_failed [of "two_pages [myvi, no_price, myvi] [myvi, myvi]" start "SystemExit 1" noon]
      collect_frame(1) [of "two_pages [myvi, no_price, myvi] [myvi, myvi]" start]
    by (simp add: start_def)
qed

end
